theory Spec2Isabelle
  imports Main
begin

section \<open>Python values\<close>

text \<open>
  The lifecycle manager receives data in the shape PyYAML's \<open>yaml.load\<close> produces: None,
  booleans, integers, strings, lists and dictionaries. A dictionary is an association list
  in insertion order (\<open>items()\<close> iterates in that order); its keys are strings, as the
  annotation \<open>Dict[str, Any]\<close> of the source says. A dictionary of Python has no repeated
  key; no theorem below needs that.
\<close>

datatype pyval =
    PNone
  | PBool bool
  | PInt int
  | PStr string
  | PList "pyval list"
  | PDict "(string \<times> pyval) list"

type_synonym pydict = "(string \<times> pyval) list"

text \<open>Truth value testing, as \<open>not plugin_name\<close> performs it.\<close>

fun truthy :: "pyval \<Rightarrow> bool" where
  "truthy PNone = False"
| "truthy (PBool b) = b"
| "truthy (PInt i) = (i \<noteq> 0)"
| "truthy (PStr s) = (s \<noteq> [])"
| "truthy (PList xs) = (xs \<noteq> [])"
| "truthy (PDict kvs) = (kvs \<noteq> [])"

text \<open>\<open>isinstance(v, dict)\<close>.\<close>

fun isinstance_dict :: "pyval \<Rightarrow> bool" where
  "isinstance_dict (PDict kvs) = True"
| "isinstance_dict v = False"

text \<open>\<open>key in d\<close> and \<open>d.get(key, default)\<close> on a dictionary.\<close>

definition dict_contains :: "pydict \<Rightarrow> string \<Rightarrow> bool" where
  "dict_contains kvs k = (map_of kvs k \<noteq> None)"

definition dict_get :: "pydict \<Rightarrow> string \<Rightarrow> pyval \<Rightarrow> pyval" where
  "dict_get kvs k dflt = (case map_of kvs k of None \<Rightarrow> dflt | Some v \<Rightarrow> v)"

section \<open>Exceptions\<close>

text \<open>
  Every exception the module raises or handles is a value. \<open>PartSpecificationError\<close>
  carries the part name and either a free-text message (its constructor, as line 183 and
  line 211 call it) or the error list of a schema validation (its class method
  \<open>from_validation_error\<close>, line 207). \<open>OtherError\<close> stands for any exception of a
  collaborator that the module neither raises nor handles.
\<close>

datatype spec_error_detail =
    Message string
  | ErrorList "pyval list"

datatype exn =
    InvalidApplicationName string
  | TypeError string
  | ValueError string
  | AttributeError string
  | ValidationError "pyval list"
  | PartSpecificationError string spec_error_detail
  | UndefinedPlugin string
  | InvalidPlugin pyval string
  | PartNotFound string
  | OtherError string

text \<open>
  What \<open>except ValueError\<close> catches: \<open>ValueError\<close> and its subclasses. The
  \<open>ValidationError\<close> of pydantic 1.8.2 (the version \<open>setup.py\<close> pins) is a subclass of
  \<open>ValueError\<close>.
\<close>

fun is_ValueError :: "exn \<Rightarrow> bool" where
  "is_ValueError (ValueError msg) = True"
| "is_ValueError (ValidationError errs) = True"
| "is_ValueError e = False"

text \<open>
  Modelled from the spec: \<open>errors.PartSpecificationError.from_validation_error\<close> is not
  among the sources; by section 4.1 the error it builds carries the part name and the
  schema validation error list.
\<close>

definition from_validation_error :: "string \<Rightarrow> pyval list \<Rightarrow> exn" where
  "from_validation_error part_name error_list = PartSpecificationError part_name (ErrorList error_list)"

section \<open>The data of the collaborators\<close>

text \<open>
  Modelled from the spec: the classes \<open>Step\<close>, \<open>Action\<close>, \<open>ProjectDirs\<close>,
  \<open>ProjectInfo\<close> and \<open>Part\<close> and the plugin classes live in modules that are not among
  the sources (\<open>steps\<close>, \<open>actions\<close>, \<open>dirs\<close>, \<open>infos\<close>, \<open>parts\<close>, \<open>plugins\<close>). Their
  data follows section 3 of the spec: the four steps in their order, the four kinds of
  action, an action as part name, step, kind and reason, the project information as an
  immutable snapshot of the configuration, a part with its plugin, properties and "after"
  list. The source reads two attributes of the project information, \<open>cache_dir\<close> and
  \<open>target_arch\<close>. A plugin class is known by its identifier; its properties are opaque.
\<close>

datatype Step = PULL | BUILD | STAGE | PRIME

datatype kind = RUN | RERUN | SKIP | REAPPLY

record Action =
  action_part_name :: string
  action_step :: Step
  action_kind :: kind
  action_reason :: "string option"

record ProjectDirs =
  dirs_work_dir :: string

record ProjectInfo =
  info_application_name :: string
  info_cache_dir :: string
  info_target_arch :: string
  info_base :: string
  info_parallel_build_count :: int
  info_project_dirs :: ProjectDirs
  info_custom_args :: pydict

datatype plugin_class = PluginClass string

type_synonym properties = pydict

record Part =
  part_name :: string
  part_plugin :: pyval
  part_properties :: properties
  part_after :: "string list"
  part_dirs :: ProjectDirs


section \<open>Effects\<close>

text \<open>
  Everything outside the manager object is the world \<open>'w\<close>: the file system, the plugin
  registry, the package cache. Only a collaborator changes it. The model threads the
  world through every call of a collaborator and records the call, in order, so that
  "is invoked" and "before anything is touched" are statements about the state.
\<close>

datatype call =
    Call_ProjectDirs string
  | Call_ProjectInfo string
  | Call_get_plugin_class pyval
  | Call_unmarshal plugin_class
  | Call_strip_plugin_properties pyval
  | Call_Part string
  | Call_Sequencer
  | Call_Executor
  | Call_Executor_clean Step "string list option"
  | Call_Sequencer_plan Step "string list option"
  | Call_Sequencer_reload_state
  | Call_refresh_stage_packages_list string string
  | Call_refresh_build_packages_list

record 'w sys =
  calls :: "call list"
  world :: 'w

type_synonym ('a, 'w) prog = "'w sys \<Rightarrow> (exn + 'a) \<times> 'w sys"

definition returnE :: "'a \<Rightarrow> ('a, 'w) prog" where
  "returnE x s = (Inr x, s)"

definition raiseE :: "exn \<Rightarrow> ('a, 'w) prog" where
  "raiseE e s = (Inl e, s)"

text \<open>Sequencing: an exception of the first statement leaves the block.\<close>

definition bindE :: "('a, 'w) prog \<Rightarrow> ('a \<Rightarrow> ('b, 'w) prog) \<Rightarrow> ('b, 'w) prog" where
  "bindE m f s = (case m s of (Inl e, s') \<Rightarrow> (Inl e, s') | (Inr x, s') \<Rightarrow> f x s')"

text \<open>A call of a collaborator: recorded, then run on the world.\<close>

definition invoke :: "call \<Rightarrow> ('w \<Rightarrow> (exn + 'a) \<times> 'w) \<Rightarrow> ('a, 'w) prog" where
  "invoke c f s = (case f (world s) of (r, w') \<Rightarrow> (r, \<lparr>calls = calls s @ [c], world = w'\<rparr>))"


text \<open>
  The collaborators are parameters of the model: the functions and constructors the
  module imports. Each returns a value or raises, and may change the world. A method of
  the sequencer or of the executor also returns the new state of its object.
  \<open>Repository.refresh_stage_packages_list\<close> and \<open>Repository.refresh_build_packages_list\<close>
  return None or raise, as every other collaborator.
\<close>

record ('w, 'sq, 'ex) collaborators =
  Path :: "string \<Rightarrow> string"
  ProjectDirs_init :: "string \<Rightarrow> 'w \<Rightarrow> (exn + ProjectDirs) \<times> 'w"
  ProjectInfo_init ::
    "string \<Rightarrow> string \<Rightarrow> string \<Rightarrow> string \<Rightarrow> int \<Rightarrow> ProjectDirs \<Rightarrow> pydict \<Rightarrow> 'w
      \<Rightarrow> (exn + ProjectInfo) \<times> 'w"
  get_plugin_class :: "pyval \<Rightarrow> 'w \<Rightarrow> (exn + plugin_class) \<times> 'w"
  unmarshal :: "plugin_class \<Rightarrow> pydict \<Rightarrow> 'w \<Rightarrow> (exn + properties) \<times> 'w"
  strip_plugin_properties :: "pydict \<Rightarrow> pyval \<Rightarrow> 'w \<Rightarrow> (exn + pydict) \<times> 'w"
  Part_init :: "string \<Rightarrow> pydict \<Rightarrow> ProjectDirs \<Rightarrow> properties \<Rightarrow> 'w \<Rightarrow> (exn + Part) \<times> 'w"
  Sequencer_init :: "Part list \<Rightarrow> ProjectInfo \<Rightarrow> 'w \<Rightarrow> (exn + 'sq) \<times> 'w"
  Executor_init :: "Part list \<Rightarrow> ProjectInfo \<Rightarrow> string list option \<Rightarrow> 'w \<Rightarrow> (exn + 'ex) \<times> 'w"
  Executor_clean :: "Step \<Rightarrow> string list option \<Rightarrow> 'ex \<Rightarrow> 'w \<Rightarrow> (exn + unit) \<times> 'ex \<times> 'w"
  Sequencer_plan :: "Step \<Rightarrow> string list option \<Rightarrow> 'sq \<Rightarrow> 'w \<Rightarrow> (exn + Action list) \<times> 'sq \<times> 'w"
  Sequencer_reload_state :: "'sq \<Rightarrow> 'w \<Rightarrow> (exn + unit) \<times> 'sq \<times> 'w"
  refresh_stage_packages_list :: "string \<Rightarrow> string \<Rightarrow> 'w \<Rightarrow> (exn + unit) \<times> 'w"
  refresh_build_packages_list :: "'w \<Rightarrow> (exn + unit) \<times> 'w"

section \<open>The application name\<close>

text \<open>
  \<open>re.match("^[A-Za-z][0-9A-Za-z_]*$", application_name)\<close>, line 75. The classes are
  ASCII ranges. In Python \<open>$\<close> matches at the end of the string and also just before a
  newline that ends the string, so a name followed by one line feed matches.
\<close>

definition in_range :: "nat \<Rightarrow> nat \<Rightarrow> char \<Rightarrow> bool" where
  "in_range lo hi c = (lo \<le> of_char c \<and> (of_char c :: nat) \<le> hi)"

definition is_letter :: "char \<Rightarrow> bool" where
  "is_letter c = (in_range 65 90 c \<or> in_range 97 122 c)"

definition is_word_char :: "char \<Rightarrow> bool" where
  "is_word_char c = (in_range 48 57 c \<or> is_letter c \<or> c = CHR ''_'')"

definition re_match_application_name :: "string \<Rightarrow> bool" where
  "re_match_application_name s =
     (case s of
        [] \<Rightarrow> False
      | c # cs \<Rightarrow>
          is_letter c \<and>
          (list_all is_word_char cs \<or>
           (cs \<noteq> [] \<and> last cs = CHR 0x0A \<and> list_all is_word_char (butlast cs))))"

section \<open>Building a part\<close>

text \<open>
  Lines 187 to 201 of \<open>_build_part\<close>: the plugin name is the value of the \<open>plugin\<close>
  field (the empty string when the field is absent); when that value is falsy the part
  name is the plugin name. A \<open>ValueError\<close> of the lookup becomes \<open>UndefinedPlugin\<close> when
  the name came from the part, \<open>InvalidPlugin\<close> otherwise; any other exception of the
  lookup propagates. The result is the plugin name and the plugin class (the two
  variables the rest of the function reads).
\<close>

definition resolve_plugin ::
  "('w, 'sq, 'ex) collaborators \<Rightarrow> string \<Rightarrow> pydict \<Rightarrow> (pyval \<times> plugin_class, 'w) prog" where
  "resolve_plugin env name spec s =
     (let plugin_name0 = dict_get spec ''plugin'' (PStr []);
          part_name_as_plugin_name = (\<not> truthy plugin_name0);
          plugin_name = (if part_name_as_plugin_name then PStr name else plugin_name0)
      in case invoke (Call_get_plugin_class plugin_name) (get_plugin_class env plugin_name) s of
           (Inr cls, s') \<Rightarrow> (Inr (plugin_name, cls), s')
         | (Inl err, s') \<Rightarrow>
             if is_ValueError err then
               (if part_name_as_plugin_name then (Inl (UndefinedPlugin name), s')
                else (Inl (InvalidPlugin plugin_name name), s'))
             else (Inl err, s'))"

text \<open>
  Lines 204 to 211: the properties are validated and unmarshalled by the properties class
  of the plugin. The handler of \<open>ValidationError\<close> comes first, the handler of
  \<open>ValueError\<close> second (\<open>str(err)\<close> is the message of the error).
\<close>

definition unmarshal_properties ::
  "('w, 'sq, 'ex) collaborators \<Rightarrow> string \<Rightarrow> plugin_class \<Rightarrow> pydict \<Rightarrow> (properties, 'w) prog" where
  "unmarshal_properties env name cls spec s =
     (case invoke (Call_unmarshal cls) (unmarshal env cls spec) s of
        (Inr props, s') \<Rightarrow> (Inr props, s')
      | (Inl (ValidationError errs), s') \<Rightarrow> (Inl (from_validation_error name errs), s')
      | (Inl (ValueError msg), s') \<Rightarrow> (Inl (PartSpecificationError name (Message msg)), s')
      | (Inl err, s') \<Rightarrow> (Inl err, s'))"

text \<open>
  \<open>_build_part\<close>, lines 174 to 218. \<open>strip_plugin_properties\<close> changes the dictionary
  in place; the model passes the changed dictionary on to the constructor of the part.
\<close>

definition build_part ::
  "('w, 'sq, 'ex) collaborators \<Rightarrow> string \<Rightarrow> pyval \<Rightarrow> ProjectDirs \<Rightarrow> (Part, 'w) prog" where
  "build_part env name spec project_dirs =
     (case spec of
        PDict kvs \<Rightarrow>
          bindE (resolve_plugin env name kvs) (\<lambda>(plugin_name, cls).
          bindE (unmarshal_properties env name cls kvs) (\<lambda>props.
          bindE (invoke (Call_strip_plugin_properties plugin_name)
                   (strip_plugin_properties env kvs plugin_name)) (\<lambda>kvs'.
          invoke (Call_Part name) (Part_init env name kvs' project_dirs props))))
      | _ \<Rightarrow> raiseE (PartSpecificationError name (Message ''part definition is malformed'')))"

section \<open>The lifecycle manager\<close>

text \<open>The fields \<open>__init__\<close> assigns (lines 102 to 114).\<close>

record ('sq, 'ex) LifecycleManager =
  self_part_list :: "Part list"
  self_application_name :: string
  self_target_arch :: string
  self_sequencer :: 'sq
  self_executor :: 'ex
  self_project_info :: ProjectInfo

text \<open>\<open>parts_data.items()\<close>: a value that is no dictionary has no such attribute.\<close>

definition dict_items :: "pyval \<Rightarrow> (pydict, 'w) prog" where
  "dict_items v = (case v of PDict kvs \<Rightarrow> returnE kvs | _ \<Rightarrow> raiseE (AttributeError ''items''))"

text \<open>The loop of lines 98 to 100; the first exception ends it.\<close>

fun build_part_list ::
  "('w, 'sq, 'ex) collaborators \<Rightarrow> pydict \<Rightarrow> ProjectDirs \<Rightarrow> (Part list, 'w) prog" where
  "build_part_list env [] project_dirs = returnE []"
| "build_part_list env ((name, spec) # rest) project_dirs =
     bindE (build_part env name spec project_dirs) (\<lambda>part.
     bindE (build_part_list env rest project_dirs) (\<lambda>parts.
     returnE (part # parts)))"

text \<open>
  \<open>LifecycleManager.__init__\<close>, lines 62 to 114. The three checks come first, in the
  order of the source; the keyword arguments are the arguments of the function, and
  \<open>**custom_args\<close> is a dictionary.
\<close>

definition LifecycleManager_init ::
  "('w, 'sq, 'ex) collaborators \<Rightarrow> pyval \<Rightarrow> string \<Rightarrow> string \<Rightarrow> string \<Rightarrow> string \<Rightarrow> string \<Rightarrow> int
    \<Rightarrow> string list option \<Rightarrow> pydict \<Rightarrow> (('sq, 'ex) LifecycleManager, 'w) prog" where
  "LifecycleManager_init env all_parts application_name cache_dir work_dir arch base
       parallel_build_count extra_build_packages custom_args =
     (if \<not> re_match_application_name application_name then
        raiseE (InvalidApplicationName application_name)
      else case all_parts of
        PDict all_parts_dict \<Rightarrow>
          if \<not> dict_contains all_parts_dict ''parts'' then raiseE (ValueError ''parts definition is missing'')
          else
            bindE (invoke (Call_ProjectDirs work_dir) (ProjectDirs_init env work_dir)) (\<lambda>project_dirs.
            bindE (invoke (Call_ProjectInfo application_name)
                     (ProjectInfo_init env application_name (Path env cache_dir) arch base
                        parallel_build_count project_dirs custom_args)) (\<lambda>project_info.
            bindE (dict_items (dict_get all_parts_dict ''parts'' (PDict []))) (\<lambda>parts_data.
            bindE (build_part_list env parts_data project_dirs) (\<lambda>part_list.
            bindE (invoke Call_Sequencer (Sequencer_init env part_list project_info)) (\<lambda>sq.
            bindE (invoke Call_Executor
                     (Executor_init env part_list project_info extra_build_packages)) (\<lambda>ex.
            returnE \<lparr>self_part_list = part_list,
                     self_application_name = application_name,
                     self_target_arch = info_target_arch project_info,
                     self_sequencer = sq,
                     self_executor = ex,
                     self_project_info = project_info\<rparr>))))))
      | _ \<Rightarrow> raiseE (TypeError ''parts definition must be a dictionary''))"

text \<open>
  A method takes the manager and returns it with the result: the fields it assigns, and
  the state of the sequencer or of the executor it calls, are in the manager it returns.
\<close>

type_synonym ('a, 'sq, 'ex, 'w) manager_method =
  "('sq, 'ex) LifecycleManager \<Rightarrow> 'w sys \<Rightarrow> (exn + 'a) \<times> ('sq, 'ex) LifecycleManager \<times> 'w sys"

text \<open>The property \<open>project_info\<close>, lines 116 to 119.\<close>

definition project_info :: "(ProjectInfo, 'sq, 'ex, 'w) manager_method" where
  "project_info self s = (Inr (self_project_info self), self, s)"

text \<open>
  \<open>clean\<close>, lines 121 to 132. The step is optional: \<open>None\<close> is the call that leaves the
  argument out, and the default of the signature is \<open>Step.PULL\<close>.
\<close>

definition clean ::
  "('w, 'sq, 'ex) collaborators \<Rightarrow> Step option \<Rightarrow> string list option \<Rightarrow> (unit, 'sq, 'ex, 'w) manager_method" where
  "clean env step part_names self s =
     (let initial_step = (case step of None \<Rightarrow> PULL | Some st \<Rightarrow> st)
      in case Executor_clean env initial_step part_names (self_executor self) (world s) of
           (r, ex', w') \<Rightarrow>
             (r, self\<lparr>self_executor := ex'\<rparr>,
              \<lparr>calls = calls s @ [Call_Executor_clean initial_step part_names], world = w'\<rparr>))"





section \<open>The collaborators as the spec describes them\<close>

text \<open>
  The sequencer, the executor, the state store, the part graph and the plugin registry are
  not among the sources. This section models them from the spec (sections 3 and 4), to
  have one concrete set of collaborators, with which the theorems about the source are
  instantiated.
\<close>

subsection \<open>State store (section 4.2)\<close>

text \<open>
  Modelled from the spec: the step record of section 3 (completion flag, fingerprint
  recorded at completion, outdated flag), kept per part and step. A missing record is
  "never run". The world of these collaborators is the durable store.
\<close>

record StepRecord =
  record_completed :: bool
  record_fingerprint :: string
  record_outdated :: bool

type_synonym StateStore = "string \<times> Step \<Rightarrow> StepRecord option"

text \<open>
  Modelled from the spec: \<open>markOutdated\<close> of section 4.2 flips the flag of a record
  without deleting it; there is nothing to flip where no record is.
\<close>

definition markOutdated :: "StateStore \<Rightarrow> string \<times> Step \<Rightarrow> StateStore" where
  "markOutdated st k = (case st k of None \<Rightarrow> st | Some r \<Rightarrow> st(k \<mapsto> r\<lparr>record_outdated := True\<rparr>))"

text \<open>
  Modelled from the spec: the fixed order of the steps (section 3), PULL < BUILD < STAGE <
  PRIME: the steps after a step.
\<close>

fun steps_after :: "Step \<Rightarrow> Step list" where
  "steps_after PULL = [BUILD, STAGE, PRIME]"
| "steps_after BUILD = [STAGE, PRIME]"
| "steps_after STAGE = [PRIME]"
| "steps_after PRIME = []"

subsection \<open>Part graph (section 4.1)\<close>

text \<open>
  Modelled from the spec: \<open>topologicalOrder\<close> of section 4.1. Every part comes after
  all the parts its "after" list names; among the parts that may come next, the one
  declared first comes first. \<open>take_ready\<close> takes the first part whose "after" list is
  already placed. A cycle, or a name that is no part, leaves no part to take: the
  order does not exist (\<open>None\<close>). Each round places one part, so the number of parts is
  enough fuel.
\<close>

fun take_ready :: "string list \<Rightarrow> Part list \<Rightarrow> (Part \<times> Part list) option" where
  "take_ready placed [] = None"
| "take_ready placed (p # ps) =
     (if list_all (\<lambda>a. a \<in> set placed) (part_after p) then Some (p, ps)
      else case take_ready placed ps of
             None \<Rightarrow> None
           | Some (q, rest) \<Rightarrow> Some (q, p # rest))"

fun topological_rounds :: "nat \<Rightarrow> string list \<Rightarrow> Part list \<Rightarrow> Part list option" where
  "topological_rounds n placed [] = Some []"
| "topological_rounds 0 placed (p # ps) = None"
| "topological_rounds (Suc n) placed (p # ps) =
     (case take_ready placed (p # ps) of
        None \<Rightarrow> None
      | Some (q, rest) \<Rightarrow>
          (case topological_rounds n (placed @ [part_name q]) rest of
             None \<Rightarrow> None
           | Some qs \<Rightarrow> Some (q # qs)))"

definition topologicalOrder :: "Part list \<Rightarrow> Part list option" where
  "topologicalOrder parts = topological_rounds (length parts) [] parts"

text \<open>
  Modelled from the spec: step 1 of \<open>plan\<close> (section 4.3) and the selection of
  \<open>clean\<close> (section 4.4). No names, or an empty list, selects every part; a name that is
  no part is the error "part not found".
\<close>

definition resolve_part_set :: "string list option \<Rightarrow> Part list \<Rightarrow> exn + Part list" where
  "resolve_part_set part_names parts =
     (case part_names of
        None \<Rightarrow> Inr parts
      | Some names \<Rightarrow>
          if names = [] then Inr parts
          else (case filter (\<lambda>n. n \<notin> set (map part_name parts)) names of
                  [] \<Rightarrow> Inr (filter (\<lambda>p. part_name p \<in> set names) parts)
                | n # unknown \<Rightarrow> Inl (PartNotFound n)))"

subsection \<open>Sequencer (section 4.3)\<close>

text \<open>
  Modelled from the spec: what the spec leaves open is a parameter of the model of the
  collaborators: the plugins that exist, the property schema of a plugin (section 6: a
  validator usable when a part is constructed), the architecture of the host, and how the
  sequencer plans. The sequencer is not among the sources, and the spec gives the order of
  the planned actions in two ways that differ (step by step in section 4.3, part by part
  in the scenario of section 8); the planner is left open. The sequencer holds the part
  list, the project information and the step records it has loaded.
\<close>

record Sequencer =
  seq_part_list :: "Part list"
  seq_project_info :: ProjectInfo
  seq_state :: StateStore

record settings =
  registry :: "string list"
  schema :: "plugin_class \<Rightarrow> pydict \<Rightarrow> exn + properties"
  host_arch :: string
  planner ::
    "Step \<Rightarrow> string list option \<Rightarrow> Sequencer \<Rightarrow> StateStore
      \<Rightarrow> (exn + Action list) \<times> Sequencer \<times> StateStore"

text \<open>
  Modelled from the spec: the sequencer is built once from the part list; an "after"
  relation with a cycle or with a name that is no part is a construction error (section
  3). It starts from the records of the durable store (\<open>load\<close>), and \<open>reload\<close> reads
  them again.
\<close>

definition spec_Sequencer_init ::
  "Part list \<Rightarrow> ProjectInfo \<Rightarrow> StateStore \<Rightarrow> (exn + Sequencer) \<times> StateStore" where
  "spec_Sequencer_init part_list info w =
     (case topologicalOrder part_list of
        None \<Rightarrow> (Inl (OtherError ''the after relation has no order''), w)
      | Some ordered \<Rightarrow>
          (Inr \<lparr>seq_part_list = part_list, seq_project_info = info, seq_state = w\<rparr>, w))"

definition spec_Sequencer_reload_state ::
  "Sequencer \<Rightarrow> StateStore \<Rightarrow> (exn + unit) \<times> Sequencer \<times> StateStore" where
  "spec_Sequencer_reload_state sq w = (Inr (), sq\<lparr>seq_state := w\<rparr>, w)"

subsection \<open>Executor (section 4.4)\<close>

text \<open>
  Modelled from the spec: the executor is constructed from the part list, the project
  information and the extra build packages (the arguments the source passes), and no
  failure of its construction is described.
\<close>

record Executor =
  exec_part_list :: "Part list"
  exec_project_info :: ProjectInfo
  exec_extra_build_packages :: "string list option"

definition spec_Executor_init ::
  "Part list \<Rightarrow> ProjectInfo \<Rightarrow> string list option \<Rightarrow> StateStore \<Rightarrow> (exn + Executor) \<times> StateStore" where
  "spec_Executor_init part_list info extra w =
     (Inr \<lparr>exec_part_list = part_list, exec_project_info = info,
           exec_extra_build_packages = extra\<rparr>, w)"

text \<open>
  Modelled from the spec: \<open>clean\<close> of section 4.4 removes, for the selected parts, the
  record of the initial step and of every later step, and marks outdated the STAGE and
  PRIME records of every other part.
\<close>

definition spec_Executor_clean ::
  "Step \<Rightarrow> string list option \<Rightarrow> Executor \<Rightarrow> StateStore \<Rightarrow> (exn + unit) \<times> Executor \<times> StateStore" where
  "spec_Executor_clean initial_step part_names ex w =
     (case resolve_part_set part_names (exec_part_list ex) of
        Inl e \<Rightarrow> (Inl e, ex, w)
      | Inr selected \<Rightarrow>
          (let names = map part_name selected;
               erased = (\<lambda>(n, step).
                  if n \<in> set names \<and> step \<in> set (initial_step # steps_after initial_step)
                  then None else w (n, step));
               others = filter (\<lambda>q. part_name q \<notin> set names) (exec_part_list ex);
               theirs = concat (map (\<lambda>q. [(part_name q, STAGE), (part_name q, PRIME)]) others)
           in (Inr (), ex, foldl markOutdated erased theirs)))"

subsection \<open>Parts and plugins\<close>

text \<open>
  Modelled from the spec: the lookup of a plugin (section 6). An identifier that is not
  the name of a registered plugin is unknown; the source handles that as \<open>ValueError\<close>.
\<close>

definition spec_get_plugin_class ::
  "settings \<Rightarrow> pyval \<Rightarrow> StateStore \<Rightarrow> (exn + plugin_class) \<times> StateStore" where
  "spec_get_plugin_class cfg plugin_name w =
     (case plugin_name of
        PStr n \<Rightarrow>
          if n \<in> set (registry cfg) then (Inr (PluginClass n), w)
          else (Inl (ValueError (''plugin not registered: '' @ n)), w)
      | _ \<Rightarrow> (Inl (ValueError ''plugin not registered''), w))"

text \<open>
  Modelled from the spec: the "after" list of a part (section 3), read from the \<open>after\<close>
  field of its specification: absent means no dependency; anything but a list of strings
  is a malformed specification.
\<close>

fun after_names :: "pyval list \<Rightarrow> string list option" where
  "after_names [] = Some []"
| "after_names (PStr n # vs) = (case after_names vs of None \<Rightarrow> None | Some ns \<Rightarrow> Some (n # ns))"
| "after_names (v # vs) = None"

definition spec_Part_init ::
  "string \<Rightarrow> pydict \<Rightarrow> ProjectDirs \<Rightarrow> properties \<Rightarrow> StateStore \<Rightarrow> (exn + Part) \<times> StateStore" where
  "spec_Part_init name spec dirs props w =
     (case (case map_of spec ''after'' of
              None \<Rightarrow> Some []
            | Some (PList vs) \<Rightarrow> after_names vs
            | Some v \<Rightarrow> None) of
        None \<Rightarrow> (Inl (PartSpecificationError name (Message ''after must be a list of part names'')), w)
      | Some names \<Rightarrow>
          (Inr \<lparr>part_name = name, part_plugin = dict_get spec ''plugin'' (PStr name),
                part_properties = props, part_after = names, part_dirs = dirs\<rparr>, w))"

text \<open>
  Modelled from the spec: the project information is a snapshot of the arguments (section
  3); an empty architecture is the architecture of the host (docstring of the
  constructor). The properties of a part are what the schema of its plugin makes of the
  specification. The spec does not describe \<open>strip_plugin_properties\<close>: the
  specification is passed on as it is.
\<close>

definition spec_collaborators :: "settings \<Rightarrow> (StateStore, Sequencer, Executor) collaborators" where
  "spec_collaborators cfg =
     \<lparr>Path = (\<lambda>p. p),
      ProjectDirs_init = (\<lambda>wd w. (Inr \<lparr>dirs_work_dir = wd\<rparr>, w)),
      ProjectInfo_init = (\<lambda>an cd ar bs pbc dirs ca w.
         (Inr \<lparr>info_application_name = an, info_cache_dir = cd,
               info_target_arch = (if ar = [] then host_arch cfg else ar), info_base = bs,
               info_parallel_build_count = pbc, info_project_dirs = dirs,
               info_custom_args = ca\<rparr>, w)),
      get_plugin_class = spec_get_plugin_class cfg,
      unmarshal = (\<lambda>cls spec w. (schema cfg cls spec, w)),
      strip_plugin_properties = (\<lambda>spec pn w. (Inr spec, w)),
      Part_init = spec_Part_init,
      Sequencer_init = spec_Sequencer_init,
      Executor_init = spec_Executor_init,
      Executor_clean = spec_Executor_clean,
      Sequencer_plan = planner cfg,
      Sequencer_reload_state = spec_Sequencer_reload_state,
      refresh_stage_packages_list = (\<lambda>cd ar w. (Inr (), w)),
      refresh_build_packages_list = (\<lambda>w. (Inr (), w))\<rparr>"

subsection \<open>The scenario of section 8\<close>

text \<open>
  Modelled from the spec: the scenario of section 8. The parts
  \<open>{foo: {plugin: nil}, bar: {plugin: nil, after: [foo]}}\<close> as \<open>yaml.load\<close> gives them: \<open>nil\<close> is the string that names the nil plugin. The nil plugin is
  registered, its schema refuses no specification and keeps the fields other than
  \<open>plugin\<close> and \<open>after\<close> as properties, and the durable store holds no record (no
  prior state). No theorem below reads a plan: the planner of the scenario plans no
  action.
\<close>

definition scenario_parts :: pyval where
  "scenario_parts =
     PDict [(''parts'', PDict
       [(''foo'', PDict [(''plugin'', PStr ''nil'')]),
        (''bar'', PDict [(''plugin'', PStr ''nil''), (''after'', PList [PStr ''foo''])])])]"

definition scenario_settings :: settings where
  "scenario_settings =
     \<lparr>registry = [''nil''],
      schema = (\<lambda>cls spec. Inr (filter (\<lambda>(k, v). k \<noteq> ''plugin'' \<and> k \<noteq> ''after'') spec)),
      host_arch = ''amd64'',
      planner = (\<lambda>target_step part_names sq w. (Inr [], sq, w))\<rparr>"

definition no_prior_state :: "StateStore sys" where
  "no_prior_state = \<lparr>calls = [], world = (\<lambda>k. None)\<rparr>"

text \<open>The manager of the scenario, built by the constructor of the source.\<close>

definition scenario_manager ::
  "(exn + (Sequencer, Executor) LifecycleManager) \<times> StateStore sys" where
  "scenario_manager =
     LifecycleManager_init (spec_collaborators scenario_settings) scenario_parts
       ''demo'' ''cache'' ''.'' [] [] 1 None [] no_prior_state"





section \<open>Observations on the record of calls\<close>




text \<open>The calls a run has added to the record: those after the calls of the state it started in.\<close>

definition new_calls :: "'w sys \<Rightarrow> 'w sys \<Rightarrow> call list" where
  "new_calls s s' = drop (length (calls s)) (calls s')"

text \<open>A program that only adds calls to the record, each of them satisfying \<open>P\<close>.\<close>

definition adds_only :: "(call \<Rightarrow> bool) \<Rightarrow> ('a, 'w) prog \<Rightarrow> bool" where
  "adds_only P m = (\<forall>s. \<exists>cs. calls (snd (m s)) = calls s @ cs \<and> list_all P cs)"

section \<open>Lemmas on sequencing and on the record of calls\<close>



lemma new_calls_append [simp]: "calls s' = calls s @ cs \<Longrightarrow> new_calls s s' = cs"
  by (simp add: new_calls_def)

lemma new_calls_same [simp]: "new_calls s s = []"
  by (simp add: new_calls_def)

lemma adds_only_D:
  assumes "adds_only P m" and "m s = (r, s')"
  obtains cs where "calls s' = calls s @ cs" and "list_all P cs"
  using assms unfolding adds_only_def by (metis snd_conv)



lemma adds_only_invoke: "P c \<Longrightarrow> adds_only P (invoke c f)"
  by (simp add: adds_only_def invoke_def split: prod.splits)

lemma adds_only_bindE:
  assumes m: "adds_only P m" and f: "\<And>x. adds_only P (f x)"
  shows "adds_only P (bindE m f)"
  unfolding adds_only_def
proof
  fix s
  obtain r s1 where ms: "m s = (r, s1)" by (cases "m s")
  from m ms obtain cs where cs: "calls s1 = calls s @ cs" "list_all P cs"
    by (rule adds_only_D)
  show "\<exists>cs. calls (snd (bindE m f s)) = calls s @ cs \<and> list_all P cs"
  proof (cases r)
    case (Inl e)
    with ms cs show ?thesis by (auto simp: bindE_def)
  next
    case (Inr x)
    from f [of x] obtain ds where ds: "calls (snd (f x s1)) = calls s1 @ ds" "list_all P ds"
      unfolding adds_only_def by blast
    with Inr ms cs have "calls (snd (bindE m f s)) = calls s @ (cs @ ds) \<and> list_all P (cs @ ds)"
      by (simp add: bindE_def)
    then show ?thesis by blast
  qed
qed







section \<open>Facts about the scenario\<close>

lemma not_re_match_1bad: "\<not> re_match_application_name ''1bad''"
  by (simp add: re_match_application_name_def is_letter_def in_range_def)

lemma re_match_demo: "re_match_application_name ''demo''"
  by (simp add: re_match_application_name_def is_letter_def is_word_char_def in_range_def)

text \<open>
  The language of the pattern, as \<open>re.match\<close> reads it: a letter, then letters, digits and
  underscores, then at most one line feed.
\<close>

lemma re_match_application_name_iff:
  "re_match_application_name s \<longleftrightarrow>
     (\<exists>c w. is_letter c \<and> list_all is_word_char w \<and> (s = c # w \<or> s = c # w @ [CHR 0x0A]))"
proof (cases s)
  case Nil
  then show ?thesis by (simp add: re_match_application_name_def)
next
  case (Cons c cs)
  have "(cs \<noteq> [] \<and> last cs = CHR 0x0A \<and> list_all is_word_char (butlast cs)) \<longleftrightarrow>
        (\<exists>w. list_all is_word_char w \<and> cs = w @ [CHR 0x0A])"
    by (metis butlast_snoc last_snoc snoc_eq_iff_butlast)
  with Cons show ?thesis
    by (auto simp: re_match_application_name_def)
qed

lemma scenario_manager_built: "\<exists>self s1. scenario_manager = (Inr self, s1)"
proof -
  have "case fst scenario_manager of Inl e \<Rightarrow> False | Inr self \<Rightarrow> True"
    by code_simp
  then obtain self where "fst scenario_manager = Inr self"
    by (cases "fst scenario_manager") auto
  then show ?thesis
    by (metis prod.collapse)
qed

lemma scenario_manager_calls:
  "calls (snd scenario_manager) =
     [Call_ProjectDirs ''.'', Call_ProjectInfo ''demo'',
      Call_get_plugin_class (PStr ''nil''), Call_unmarshal (PluginClass ''nil''),
      Call_strip_plugin_properties (PStr ''nil''), Call_Part ''foo'',
      Call_get_plugin_class (PStr ''nil''), Call_unmarshal (PluginClass ''nil''),
      Call_strip_plugin_properties (PStr ''nil''), Call_Part ''bar'',
      Call_Sequencer, Call_Executor]"
  by code_simp

section \<open>The constructor\<close>

text \<open>
  C3. An application name that \<open>re.match\<close> does not match against
  \<open>^[A-Za-z][0-9A-Za-z_]*$\<close> makes the constructor raise \<open>InvalidApplicationName\<close> with
  that name, whatever the other arguments are; the state is the state before the call: no
  collaborator was called, so no directory was created and nothing else was touched.
\<close>

theorem invalid_application_name_fatal:
  "\<not> re_match_application_name application_name \<Longrightarrow>
   LifecycleManager_init env all_parts application_name cd wd ar bs pbc extra custom s
     = (Inl (InvalidApplicationName application_name), s)"
  by (simp add: LifecycleManager_init_def raiseE_def)

theorem invalid_application_name_fatal_witness:
  "\<not> re_match_application_name ''1bad'' \<and>
   LifecycleManager_init (spec_collaborators scenario_settings) scenario_parts ''1bad'' ''cache'' ''.''
     [] [] 1 None [] no_prior_state = (Inl (InvalidApplicationName ''1bad''), no_prior_state)"
  using invalid_application_name_fatal [OF not_re_match_1bad] not_re_match_1bad by simp

text \<open>
  C5. A project-wide specification (a dictionary) without the key \<open>parts\<close> makes the
  constructor raise, and the state is the state before the call: no part was built, no
  sequencer and no executor was created. With a valid application name the error is the
  \<open>ValueError\<close> "parts definition is missing".
\<close>

theorem missing_parts_key_fatal:
  "\<not> dict_contains all_parts_dict ''parts'' \<Longrightarrow>
   \<exists>e. LifecycleManager_init env (PDict all_parts_dict) n cd wd ar bs pbc extra custom s = (Inl e, s) \<and>
        (re_match_application_name n \<longrightarrow> e = ValueError ''parts definition is missing'')"
  by (simp add: LifecycleManager_init_def raiseE_def)

theorem missing_parts_key_fatal_witness:
  "\<not> dict_contains [] ''parts'' \<and>
   LifecycleManager_init (spec_collaborators scenario_settings) (PDict []) ''demo'' ''cache'' ''.''
     [] [] 1 None [] no_prior_state
     = (Inl (ValueError ''parts definition is missing''), no_prior_state)"
  using missing_parts_key_fatal [of "[]" "spec_collaborators scenario_settings" "''demo''" "''cache''"
      "''.''" "[]" "[]" 1 None "[]" no_prior_state]
    re_match_demo
  by (auto simp: dict_contains_def)

text \<open>
  C10. The constructor checks its arguments in a fixed order. An invalid application name
  raises \<open>InvalidApplicationName\<close> whatever \<open>all_parts\<close> is. With a valid name, an
  \<open>all_parts\<close> that is no dictionary raises the \<open>TypeError\<close> "parts definition must be a
  dictionary", whatever it holds. And a constructor that has called any collaborator (so
  also one that has built a part) was given a valid name and a dictionary with the key
  \<open>parts\<close>.
\<close>

theorem constructor_checks_in_order:
  "(\<not> re_match_application_name n \<longrightarrow>
      LifecycleManager_init env all_parts n cd wd ar bs pbc extra custom s
        = (Inl (InvalidApplicationName n), s)) \<and>
   (re_match_application_name n \<and> \<not> isinstance_dict all_parts \<longrightarrow>
      LifecycleManager_init env all_parts n cd wd ar bs pbc extra custom s
        = (Inl (TypeError ''parts definition must be a dictionary''), s)) \<and>
   (new_calls s (snd (LifecycleManager_init env all_parts n cd wd ar bs pbc extra custom s)) \<noteq> [] \<longrightarrow>
      re_match_application_name n \<and>
      (\<exists>kvs. all_parts = PDict kvs \<and> dict_contains kvs ''parts''))"
  by (cases all_parts) (auto simp: LifecycleManager_init_def raiseE_def)

theorem constructor_checks_in_order_witness:
  "\<not> re_match_application_name ''1bad'' \<and>
   LifecycleManager_init (spec_collaborators scenario_settings) PNone ''1bad'' ''cache'' ''.''
     [] [] 1 None [] no_prior_state = (Inl (InvalidApplicationName ''1bad''), no_prior_state) \<and>
   re_match_application_name ''demo'' \<and> \<not> isinstance_dict (PList [PStr ''parts'']) \<and>
   LifecycleManager_init (spec_collaborators scenario_settings) (PList [PStr ''parts'']) ''demo''
     ''cache'' ''.'' [] [] 1 None [] no_prior_state
     = (Inl (TypeError ''parts definition must be a dictionary''), no_prior_state) \<and>
   new_calls no_prior_state (snd scenario_manager) \<noteq> [] \<and>
   (\<exists>kvs. scenario_parts = PDict kvs \<and> dict_contains kvs ''parts'')"
proof -
  have calls: "new_calls no_prior_state (snd scenario_manager) \<noteq> []"
    by (simp add: new_calls_def scenario_manager_calls no_prior_state_def)
  from constructor_checks_in_order [of "''1bad''" "spec_collaborators scenario_settings" PNone
      "''cache''" "''.''" "[]" "[]" 1 None "[]" no_prior_state]
    constructor_checks_in_order [of "''demo''" "spec_collaborators scenario_settings"
      "PList [PStr ''parts'']" "''cache''" "''.''" "[]" "[]" 1 None "[]" no_prior_state]
    constructor_checks_in_order [of "''demo''" "spec_collaborators scenario_settings" scenario_parts
      "''cache''" "''.''" "[]" "[]" 1 None "[]" no_prior_state]
    calls not_re_match_1bad re_match_demo
  show ?thesis by (simp add: scenario_manager_def)
qed

section \<open>The public operations\<close>

text \<open>
  C7. \<open>clean\<close> called without a step does what \<open>clean\<close> called with the step PULL does,
  for every selection of part names: the same result, the same manager, the same state.
  The one call it makes is the clean of the executor with the initial step PULL, the
  first step, and the same part names.
\<close>

theorem clean_default_step_is_pull:
  "clean env None part_names self s = clean env (Some PULL) part_names self s \<and>
   new_calls s (snd (snd (clean env None part_names self s))) = [Call_Executor_clean PULL part_names]"
  by (simp add: clean_def split: prod.splits)

theorem clean_default_step_is_pull_witness:
  "case scenario_manager of
     (Inl e, s1) \<Rightarrow> False
   | (Inr self, s1) \<Rightarrow>
       clean (spec_collaborators scenario_settings) None (Some [''foo'']) self s1
         = clean (spec_collaborators scenario_settings) (Some PULL) (Some [''foo'']) self s1 \<and>
       new_calls s1 (snd (snd (clean (spec_collaborators scenario_settings) None (Some [''foo'']) self s1)))
         = [Call_Executor_clean PULL (Some [''foo''])]"
proof -
  obtain self s1 where m: "scenario_manager = (Inr self, s1)"
    using scenario_manager_built by blast
  show ?thesis
    unfolding m prod.case sum.case
    by (rule clean_default_step_is_pull [of "spec_collaborators scenario_settings" "Some [''foo'']" self s1])
qed








section \<open>Building a part: plugin and properties\<close>


text \<open>The two ways of \<open>resolve_plugin\<close>: by the name of the part, and by the given name.\<close>

lemma resolve_plugin_from_name:
  assumes "\<not> truthy (dict_get spec ''plugin'' (PStr []))"
  shows "resolve_plugin env name spec s =
     (case get_plugin_class env (PStr name) (world s) of
        (Inr cls, wa) \<Rightarrow>
          (Inr (PStr name, cls), \<lparr>calls = calls s @ [Call_get_plugin_class (PStr name)], world = wa\<rparr>)
      | (Inl err, wa) \<Rightarrow>
          (Inl (if is_ValueError err then UndefinedPlugin name else err),
           \<lparr>calls = calls s @ [Call_get_plugin_class (PStr name)], world = wa\<rparr>))"
  using assms
  by (simp add: resolve_plugin_def invoke_def Let_def split: prod.splits sum.splits)

lemma resolve_plugin_explicit:
  assumes "map_of spec ''plugin'' = Some p" and "truthy p"
  shows "resolve_plugin env name spec s =
     (case get_plugin_class env p (world s) of
        (Inr cls, wa) \<Rightarrow>
          (Inr (p, cls), \<lparr>calls = calls s @ [Call_get_plugin_class p], world = wa\<rparr>)
      | (Inl err, wa) \<Rightarrow>
          (Inl (if is_ValueError err then InvalidPlugin p name else err),
           \<lparr>calls = calls s @ [Call_get_plugin_class p], world = wa\<rparr>))"
  using assms
  by (simp add: resolve_plugin_def dict_get_def invoke_def Let_def split: prod.splits sum.splits)

lemma build_part_resolve_fails:
  "resolve_plugin env name kvs s = (Inl e, sa) \<Longrightarrow> build_part env name (PDict kvs) dirs s = (Inl e, sa)"
  by (simp add: build_part_def bindE_def)

text \<open>After the plugin is resolved, the next call is the unmarshalling by its properties class.\<close>

lemma unmarshal_properties_calls:
  "calls (snd (unmarshal_properties env name cls spec sa)) = calls sa @ [Call_unmarshal cls]"
  by (simp add: unmarshal_properties_def invoke_def split: prod.splits sum.splits exn.splits)

lemma build_part_after_resolve:
  assumes "resolve_plugin env name kvs s = (Inr (plugin_name, cls), sa)"
  shows "\<exists>cs. calls (snd (build_part env name (PDict kvs) dirs s)) = calls sa @ Call_unmarshal cls # cs"
proof -
  obtain r sb where u: "unmarshal_properties env name cls kvs sa = (r, sb)"
    by (cases "unmarshal_properties env name cls kvs sa")
  with unmarshal_properties_calls [of env name cls kvs sa]
  have sb: "calls sb = calls sa @ [Call_unmarshal cls]" by simp
  show ?thesis
  proof (cases r)
    case (Inl e)
    with assms u sb show ?thesis by (simp add: build_part_def bindE_def)
  next
    case (Inr props)
    let ?rest = "bindE (invoke (Call_strip_plugin_properties plugin_name)
                   (strip_plugin_properties env kvs plugin_name)) (\<lambda>kvs'.
                 invoke (Call_Part name) (Part_init env name kvs' dirs props))"
    have "adds_only (\<lambda>c. True) ?rest"
      by (intro adds_only_bindE adds_only_invoke) simp_all
    then obtain cs where "calls (snd (?rest sb)) = calls sb @ cs"
      unfolding adds_only_def by blast
    with assms u sb Inr show ?thesis by (simp add: build_part_def bindE_def)
  qed
qed

lemma build_part_found_by_name:
  assumes "\<not> truthy (dict_get kvs ''plugin'' (PStr []))"
    and "get_plugin_class env (PStr name) (world s) = (Inr cls, wa)"
  shows "\<exists>cs. new_calls s (snd (build_part env name (PDict kvs) dirs s))
               = Call_get_plugin_class (PStr name) # Call_unmarshal cls # cs"
proof -
  from assms have "resolve_plugin env name kvs s =
      (Inr (PStr name, cls), \<lparr>calls = calls s @ [Call_get_plugin_class (PStr name)], world = wa\<rparr>)"
    by (simp add: resolve_plugin_from_name)
  from build_part_after_resolve [OF this, of dirs] show ?thesis
    by (auto simp: new_calls_def)
qed

text \<open>The lookups of the scenario: \<open>nil\<close> is a plugin, \<open>foo\<close> and \<open>bogus\<close> are not.\<close>

lemma lookup_nil:
  "get_plugin_class (spec_collaborators (cfg\<lparr>registry := [''nil'']\<rparr>)) (PStr ''nil'') w
     = (Inr (PluginClass ''nil''), w)"
  by (simp add: spec_collaborators_def spec_get_plugin_class_def)

lemma lookup_foo:
  "get_plugin_class (spec_collaborators (cfg\<lparr>registry := [''nil'']\<rparr>)) (PStr ''foo'') w
     = (Inl (ValueError ''plugin not registered: foo''), w)"
  by (simp add: spec_collaborators_def spec_get_plugin_class_def)

lemma lookup_bogus:
  "get_plugin_class (spec_collaborators (cfg\<lparr>registry := [''nil'']\<rparr>)) (PStr ''bogus'') w
     = (Inl (ValueError ''plugin not registered: bogus''), w)"
  by (simp add: spec_collaborators_def spec_get_plugin_class_def)

lemma scenario_registry: "scenario_settings\<lparr>registry := [''nil'']\<rparr> = scenario_settings"
  by (simp add: scenario_settings_def)

text \<open>
  C2. For a part whose specification has no \<open>plugin\<close> field, the plugin is looked up by
  the name of the part: when the lookup finds a class, that class and the part name are
  the plugin of the part; when no plugin of that name exists (the lookup raises
  \<open>ValueError\<close>), the construction fails with \<open>UndefinedPlugin\<close> carrying the part name,
  after that one lookup. A given plugin identifier that is unknown fails with
  \<open>InvalidPlugin\<close> instead, and the two errors are different.
\<close>

theorem omitted_plugin_resolved_from_part_name:
  assumes "map_of spec ''plugin'' = None"
  shows
    "(get_plugin_class env (PStr name) (world s) = (Inr cls, wa) \<longrightarrow>
        resolve_plugin env name spec s =
          (Inr (PStr name, cls), \<lparr>calls = calls s @ [Call_get_plugin_class (PStr name)], world = wa\<rparr>) \<and>
        (\<exists>cs. new_calls s (snd (build_part env name (PDict spec) dirs s))
               = Call_get_plugin_class (PStr name) # Call_unmarshal cls # cs)) \<and>
     (get_plugin_class env (PStr name) (world s) = (Inl e, wa) \<and> is_ValueError e \<longrightarrow>
        build_part env name (PDict spec) dirs s =
          (Inl (UndefinedPlugin name), \<lparr>calls = calls s @ [Call_get_plugin_class (PStr name)], world = wa\<rparr>)) \<and>
     (map_of given ''plugin'' = Some p \<and> truthy p \<and>
      get_plugin_class env p (world s) = (Inl eb, wb) \<and> is_ValueError eb \<longrightarrow>
        build_part env name (PDict given) dirs s =
          (Inl (InvalidPlugin p name), \<lparr>calls = calls s @ [Call_get_plugin_class p], world = wb\<rparr>)) \<and>
     UndefinedPlugin name \<noteq> InvalidPlugin p name"
proof -
  from assms have falsy: "\<not> truthy (dict_get spec ''plugin'' (PStr []))"
    by (simp add: dict_get_def)
  have found: "resolve_plugin env name spec s =
          (Inr (PStr name, cls), \<lparr>calls = calls s @ [Call_get_plugin_class (PStr name)], world = wa\<rparr>)"
    if "get_plugin_class env (PStr name) (world s) = (Inr cls, wa)"
    using that by (simp add: resolve_plugin_from_name [OF falsy])
  have not_found: "build_part env name (PDict spec) dirs s =
          (Inl (UndefinedPlugin name), \<lparr>calls = calls s @ [Call_get_plugin_class (PStr name)], world = wa\<rparr>)"
    if "get_plugin_class env (PStr name) (world s) = (Inl e, wa)" and "is_ValueError e"
    using that by (intro build_part_resolve_fails) (simp add: resolve_plugin_from_name [OF falsy])
  have invalid: "build_part env name (PDict given) dirs s =
          (Inl (InvalidPlugin p name), \<lparr>calls = calls s @ [Call_get_plugin_class p], world = wb\<rparr>)"
    if "map_of given ''plugin'' = Some p" and "truthy p"
      and "get_plugin_class env p (world s) = (Inl eb, wb)" and "is_ValueError eb"
    using that by (intro build_part_resolve_fails) (simp add: resolve_plugin_explicit)
  from found build_part_found_by_name [OF falsy,
      where env = env and name = name and s = s and cls = cls and wa = wa and dirs = dirs]
    not_found invalid
  show ?thesis by simp
qed

theorem omitted_plugin_resolved_from_part_name_witness:
  "map_of ([] :: pydict) ''plugin'' = None \<and>
   resolve_plugin (spec_collaborators scenario_settings) ''nil'' [] no_prior_state =
     (Inr (PStr ''nil'', PluginClass ''nil''),
      \<lparr>calls = calls no_prior_state @ [Call_get_plugin_class (PStr ''nil'')],
        world = world no_prior_state\<rparr>) \<and>
   build_part (spec_collaborators scenario_settings) ''foo'' (PDict []) \<lparr>dirs_work_dir = ''.''\<rparr>
       no_prior_state =
     (Inl (UndefinedPlugin ''foo''),
      \<lparr>calls = calls no_prior_state @ [Call_get_plugin_class (PStr ''foo'')],
        world = world no_prior_state\<rparr>) \<and>
   build_part (spec_collaborators scenario_settings) ''foo'' (PDict [(''plugin'', PStr ''bogus'')])
       \<lparr>dirs_work_dir = ''.''\<rparr> no_prior_state =
     (Inl (InvalidPlugin (PStr ''bogus'') ''foo''),
      \<lparr>calls = calls no_prior_state @ [Call_get_plugin_class (PStr ''bogus'')],
        world = world no_prior_state\<rparr>)"
proof -
  have omitted: "map_of ([] :: pydict) ''plugin'' = None" by simp
  note by_name = omitted_plugin_resolved_from_part_name [OF omitted,
      where env = "spec_collaborators scenario_settings" and s = no_prior_state
        and wa = "world no_prior_state"]
  from by_name [where name = "''nil''" and cls = "PluginClass ''nil''"]
    lookup_nil [of scenario_settings]
  have a: "resolve_plugin (spec_collaborators scenario_settings) ''nil'' [] no_prior_state =
     (Inr (PStr ''nil'', PluginClass ''nil''),
      \<lparr>calls = calls no_prior_state @ [Call_get_plugin_class (PStr ''nil'')],
        world = world no_prior_state\<rparr>)"
    by (simp add: scenario_registry)
  from by_name [where name = "''foo''" and e = "ValueError ''plugin not registered: foo''"
      and dirs = "\<lparr>dirs_work_dir = ''.''\<rparr>"]
    lookup_foo [of scenario_settings]
  have b: "build_part (spec_collaborators scenario_settings) ''foo'' (PDict []) \<lparr>dirs_work_dir = ''.''\<rparr>
       no_prior_state =
     (Inl (UndefinedPlugin ''foo''),
      \<lparr>calls = calls no_prior_state @ [Call_get_plugin_class (PStr ''foo'')],
        world = world no_prior_state\<rparr>)"
    by (simp add: scenario_registry)
  from by_name [where name = "''foo''" and given = "[(''plugin'', PStr ''bogus'')]"
      and p = "PStr ''bogus''" and eb = "ValueError ''plugin not registered: bogus''"
      and wb = "world no_prior_state" and dirs = "\<lparr>dirs_work_dir = ''.''\<rparr>"]
    lookup_bogus [of scenario_settings]
  have c: "build_part (spec_collaborators scenario_settings) ''foo'' (PDict [(''plugin'', PStr ''bogus'')])
       \<lparr>dirs_work_dir = ''.''\<rparr> no_prior_state =
     (Inl (InvalidPlugin (PStr ''bogus'') ''foo''),
      \<lparr>calls = calls no_prior_state @ [Call_get_plugin_class (PStr ''bogus'')],
        world = world no_prior_state\<rparr>)"
    by (simp add: scenario_registry)
  from omitted a b c show ?thesis by (intro conjI)
qed





text \<open>
  C4. A part whose specification is no dictionary fails with \<open>PartSpecificationError\<close>
  carrying the part name and the message "part definition is malformed", before any
  collaborator is called. A part whose plugin is resolved and whose properties the schema
  of the plugin refuses fails with \<open>PartSpecificationError\<close> carrying the part name and
  the error list of the \<open>ValidationError\<close>, or the message of the \<open>ValueError\<close>.
\<close>

theorem part_specification_error:
  "(\<not> isinstance_dict spec \<longrightarrow>
      build_part env name spec dirs s =
        (Inl (PartSpecificationError name (Message ''part definition is malformed'')), s)) \<and>
   (resolve_plugin env name kvs s = (Inr (plugin_name, cls), sa) \<and>
    unmarshal env cls kvs (world sa) = (Inl (ValidationError errs), wb) \<longrightarrow>
      build_part env name (PDict kvs) dirs s =
        (Inl (PartSpecificationError name (ErrorList errs)),
         \<lparr>calls = calls sa @ [Call_unmarshal cls], world = wb\<rparr>)) \<and>
   (resolve_plugin env name kvs s = (Inr (plugin_name, cls), sa) \<and>
    unmarshal env cls kvs (world sa) = (Inl (ValueError msg), wb) \<longrightarrow>
      build_part env name (PDict kvs) dirs s =
        (Inl (PartSpecificationError name (Message msg)),
         \<lparr>calls = calls sa @ [Call_unmarshal cls], world = wb\<rparr>))"
proof -
  have malformed: "build_part env name spec dirs s =
        (Inl (PartSpecificationError name (Message ''part definition is malformed'')), s)"
    if "\<not> isinstance_dict spec"
    using that by (cases spec) (simp_all add: build_part_def raiseE_def)
  have refused: "build_part env name (PDict kvs) dirs s =
        (Inl ea, \<lparr>calls = calls sa @ [Call_unmarshal cls], world = wb\<rparr>)"
    if "resolve_plugin env name kvs s = (Inr (plugin_name, cls), sa)"
      and "unmarshal_properties env name cls kvs sa =
             (Inl ea, \<lparr>calls = calls sa @ [Call_unmarshal cls], world = wb\<rparr>)"
    for ea
    using that by (simp add: build_part_def bindE_def)
  have as_list: "unmarshal_properties env name cls kvs sa =
      (Inl (PartSpecificationError name (ErrorList errs)),
       \<lparr>calls = calls sa @ [Call_unmarshal cls], world = wb\<rparr>)"
    if "unmarshal env cls kvs (world sa) = (Inl (ValidationError errs), wb)"
    using that by (simp add: unmarshal_properties_def invoke_def from_validation_error_def)
  have as_message: "unmarshal_properties env name cls kvs sa =
      (Inl (PartSpecificationError name (Message msg)),
       \<lparr>calls = calls sa @ [Call_unmarshal cls], world = wb\<rparr>)"
    if "unmarshal env cls kvs (world sa) = (Inl (ValueError msg), wb)"
    using that by (simp add: unmarshal_properties_def invoke_def)
  from malformed refused as_list as_message show ?thesis by simp
qed

text \<open>Settings whose schema refuses every specification, with an error list or with a message.\<close>

lemma resolve_nil:
  "resolve_plugin (spec_collaborators (cfg\<lparr>registry := [''nil'']\<rparr>)) ''foo'' [(''plugin'', PStr ''nil'')]
     no_prior_state =
   (Inr (PStr ''nil'', PluginClass ''nil''),
    \<lparr>calls = [Call_get_plugin_class (PStr ''nil'')], world = world no_prior_state\<rparr>)"
  by (simp add: resolve_plugin_explicit lookup_nil no_prior_state_def)

theorem part_specification_error_witness:
  "\<not> isinstance_dict (PStr ''oops'') \<and>
   build_part (spec_collaborators scenario_settings) ''foo'' (PStr ''oops'') \<lparr>dirs_work_dir = ''.''\<rparr>
       no_prior_state =
     (Inl (PartSpecificationError ''foo'' (Message ''part definition is malformed'')), no_prior_state) \<and>
   build_part
       (spec_collaborators (scenario_settings
          \<lparr>registry := [''nil''], schema := \<lambda>cls spec. Inl (ValidationError [PStr ''bad field''])\<rparr>))
       ''foo'' (PDict [(''plugin'', PStr ''nil'')]) \<lparr>dirs_work_dir = ''.''\<rparr> no_prior_state =
     (Inl (PartSpecificationError ''foo'' (ErrorList [PStr ''bad field''])),
      \<lparr>calls = [Call_get_plugin_class (PStr ''nil''), Call_unmarshal (PluginClass ''nil'')],
        world = world no_prior_state\<rparr>) \<and>
   build_part
       (spec_collaborators (scenario_settings
          \<lparr>registry := [''nil''], schema := \<lambda>cls spec. Inl (ValueError ''bad value'')\<rparr>))
       ''foo'' (PDict [(''plugin'', PStr ''nil'')]) \<lparr>dirs_work_dir = ''.''\<rparr> no_prior_state =
     (Inl (PartSpecificationError ''foo'' (Message ''bad value'')),
      \<lparr>calls = [Call_get_plugin_class (PStr ''nil''), Call_unmarshal (PluginClass ''nil'')],
        world = world no_prior_state\<rparr>)"
proof -
  let ?by_list = "scenario_settings\<lparr>schema := \<lambda>cls spec. Inl (ValidationError [PStr ''bad field''])\<rparr>"
  let ?by_message = "scenario_settings\<lparr>schema := \<lambda>cls spec. Inl (ValueError ''bad value'')\<rparr>"
  have a: "\<not> isinstance_dict (PStr ''oops'')" by simp
  from a part_specification_error [where spec = "PStr ''oops''"
      and env = "spec_collaborators scenario_settings" and name = "''foo''"
      and dirs = "\<lparr>dirs_work_dir = ''.''\<rparr>" and s = no_prior_state]
  have b: "build_part (spec_collaborators scenario_settings) ''foo'' (PStr ''oops'')
       \<lparr>dirs_work_dir = ''.''\<rparr> no_prior_state =
     (Inl (PartSpecificationError ''foo'' (Message ''part definition is malformed'')), no_prior_state)"
    by simp
  have refuse_list: "unmarshal (spec_collaborators (?by_list\<lparr>registry := [''nil'']\<rparr>))
      (PluginClass ''nil'') [(''plugin'', PStr ''nil'')] (world no_prior_state)
        = (Inl (ValidationError [PStr ''bad field'']), world no_prior_state)"
    by (simp add: spec_collaborators_def)
  have refuse_message: "unmarshal (spec_collaborators (?by_message\<lparr>registry := [''nil'']\<rparr>))
      (PluginClass ''nil'') [(''plugin'', PStr ''nil'')] (world no_prior_state)
        = (Inl (ValueError ''bad value''), world no_prior_state)"
    by (simp add: spec_collaborators_def)
  from part_specification_error [where env = "spec_collaborators (?by_list\<lparr>registry := [''nil'']\<rparr>)"
      and name = "''foo''" and kvs = "[(''plugin'', PStr ''nil'')]" and s = no_prior_state
      and plugin_name = "PStr ''nil''" and cls = "PluginClass ''nil''"
      and sa = "\<lparr>calls = [Call_get_plugin_class (PStr ''nil'')], world = world no_prior_state\<rparr>"
      and errs = "[PStr ''bad field'']" and wb = "world no_prior_state"
      and dirs = "\<lparr>dirs_work_dir = ''.''\<rparr>"]
    resolve_nil [of ?by_list] refuse_list
  have c: "build_part
       (spec_collaborators (scenario_settings
          \<lparr>registry := [''nil''], schema := \<lambda>cls spec. Inl (ValidationError [PStr ''bad field''])\<rparr>))
       ''foo'' (PDict [(''plugin'', PStr ''nil'')]) \<lparr>dirs_work_dir = ''.''\<rparr> no_prior_state =
     (Inl (PartSpecificationError ''foo'' (ErrorList [PStr ''bad field''])),
      \<lparr>calls = [Call_get_plugin_class (PStr ''nil''), Call_unmarshal (PluginClass ''nil'')],
        world = world no_prior_state\<rparr>)"
    by (simp add: scenario_settings_def)
  from part_specification_error [where env = "spec_collaborators (?by_message\<lparr>registry := [''nil'']\<rparr>)"
      and name = "''foo''" and kvs = "[(''plugin'', PStr ''nil'')]" and s = no_prior_state
      and plugin_name = "PStr ''nil''" and cls = "PluginClass ''nil''"
      and sa = "\<lparr>calls = [Call_get_plugin_class (PStr ''nil'')], world = world no_prior_state\<rparr>"
      and msg = "''bad value''" and wb = "world no_prior_state"
      and dirs = "\<lparr>dirs_work_dir = ''.''\<rparr>"]
    resolve_nil [of ?by_message] refuse_message
  have d: "build_part
       (spec_collaborators (scenario_settings
          \<lparr>registry := [''nil''], schema := \<lambda>cls spec. Inl (ValueError ''bad value'')\<rparr>))
       ''foo'' (PDict [(''plugin'', PStr ''nil'')]) \<lparr>dirs_work_dir = ''.''\<rparr> no_prior_state =
     (Inl (PartSpecificationError ''foo'' (Message ''bad value'')),
      \<lparr>calls = [Call_get_plugin_class (PStr ''nil''), Call_unmarshal (PluginClass ''nil'')],
        world = world no_prior_state\<rparr>)"
    by (simp add: scenario_settings_def)
  from a b c d show ?thesis by (intro conjI)
qed


end
